theory Spec2Isabelle
  imports Main "HOL-Library.AList"
begin

section \<open>Text primitives used by PatternMgr\<close>

text \<open>
  Text is modelled as lists of 8-bit characters read as ASCII. The Python built-ins
  \<^verbatim>\<open>str.upper\<close>, \<^verbatim>\<open>str.split\<close>, \<^verbatim>\<open>str.strip\<close>, \<^verbatim>\<open>' '.join\<close> and the two regular
  expressions compiled in \<^verbatim>\<open>__init__\<close> are given by the functions below. Whitespace is
  the set on which Python's \<^verbatim>\<open>str.isspace\<close> holds below code point 128: 9..13, 28..31, 32.
\<close>

definition is_space :: "char \<Rightarrow> bool" where
  "is_space c = (let n = (of_char c :: nat) in (9 \<le> n \<and> n \<le> 13) \<or> (28 \<le> n \<and> n \<le> 32))"

text \<open>
  The character class of \<^verbatim>\<open>_puncStripRE\<close>: the 32 characters of the string
  \<^verbatim>\<open>`~!@#$%^&*()-_=+[{]}\|;:'",<.>/?\<close>, which are exactly the ASCII codes
  33..47, 58..64, 91..96 and 123..126.
\<close>

definition is_punct :: "char \<Rightarrow> bool" where
  "is_punct c = (let n = (of_char c :: nat) in
     (33 \<le> n \<and> n \<le> 47) \<or> (58 \<le> n \<and> n \<le> 64) \<or> (91 \<le> n \<and> n \<le> 96) \<or> (123 \<le> n \<and> n \<le> 126))"

definition upper_char :: "char \<Rightarrow> char" where
  "upper_char c = (let n = (of_char c :: nat) in
     if 97 \<le> n \<and> n \<le> 122 then char_of (n - 32) else c)"

definition upper :: "string \<Rightarrow> string" where
  "upper s = map upper_char s"

text \<open>\<^verbatim>\<open>re.sub(self._puncStripRE, " ", s)\<close>\<close>

definition puncStrip :: "string \<Rightarrow> string" where
  "puncStrip s = map (\<lambda>c. if is_punct c then CHR '' '' else c) s"

text \<open>\<^verbatim>\<open>re.sub(self._whitespaceRE, " ", s)\<close>: every maximal run of whitespace becomes one space.\<close>

fun whitespaceSub_run :: "bool \<Rightarrow> string \<Rightarrow> string" where
  "whitespaceSub_run in_run [] = []"
| "whitespaceSub_run in_run (c # cs) =
     (if is_space c then (if in_run then whitespaceSub_run True cs
                          else CHR '' '' # whitespaceSub_run True cs)
      else c # whitespaceSub_run False cs)"

definition whitespaceSub :: "string \<Rightarrow> string" where
  "whitespaceSub s = whitespaceSub_run False s"

text \<open>\<^verbatim>\<open>s.split()\<close>: the maximal runs of non-whitespace characters, in order.\<close>

fun split_from :: "string \<Rightarrow> string \<Rightarrow> string list" where
  "split_from cur [] = (if cur = [] then [] else [cur])"
| "split_from cur (c # cs) =
     (if is_space c then (if cur = [] then split_from [] cs else cur # split_from [] cs)
      else split_from (cur @ [c]) cs)"

definition split :: "string \<Rightarrow> string list" where
  "split s = split_from [] s"

text \<open>\<^verbatim>\<open>' '.join(ws)\<close>\<close>

fun join :: "string list \<Rightarrow> string" where
  "join [] = []"
| "join [w] = w"
| "join (w # v # ws) = w @ CHR '' '' # join (v # ws)"

text \<open>\<^verbatim>\<open>s.strip() == u""\<close> holds exactly when every character of \<open>s\<close> is whitespace.\<close>

definition strip_is_empty :: "string \<Rightarrow> bool" where
  "strip_is_empty s = list_all is_space s"

section \<open>The node tree\<close>

text \<open>
  A node is a Python dict from keys (strings) to values; the value under a key is either
  another dict or, where \<^verbatim>\<open>node[self._TEMPLATE] = template\<close> stored it, a template. The
  dict is an association list with unique keys, read with \<open>map_of\<close> and written with
  \<open>AList.update\<close>. Templates are opaque values of type \<open>'a\<close> that are not containers:
  a membership test or a subscript on one raises \<^verbatim>\<open>TypeError\<close>.
\<close>

datatype 'a node = Dict "(string \<times> 'a node) list" | Tmpl 'a

datatype error = TypeError | AttributeError | IndexError
  | ValueError_not_in_list | ValueError_wildcardType

text \<open>The special dictionary keys of class \<^verbatim>\<open>PatternMgr\<close>.\<close>

definition UNDERSCORE :: string where "UNDERSCORE = ''0''"
definition STAR :: string where "STAR = ''1''"
definition TEMPLATE :: string where "TEMPLATE = ''2''"
definition THAT :: string where "THAT = ''3''"
definition TOPIC :: string where "TOPIC = ''4''"
definition BOT_NAME :: string where "BOT_NAME = ''5''"
definition CARET :: string where "CARET = ''6''"

lemmas key_defs = UNDERSCORE_def STAR_def TEMPLATE_def THAT_def TOPIC_def BOT_NAME_def CARET_def

record 'a store =
  root :: "'a node"
  templateCount :: nat
  botName :: string

text \<open>\<^verbatim>\<open>__init__\<close>\<close>

definition init :: "'a store" where
  "init = \<lparr> root = Dict [], templateCount = 0, botName = ''Nameless'' \<rparr>"

definition numTemplates :: "'a store \<Rightarrow> nat" where
  "numTemplates s = templateCount s"

text \<open>\<^verbatim>\<open>setBotName\<close>: \<^verbatim>\<open>self._botName = unicode(' '.join(name.split()))\<close>\<close>

definition setBotName :: "string \<Rightarrow> 'a store \<Rightarrow> 'a store" where
  "setBotName name s = s\<lparr> botName := join (split name) \<rparr>"

section \<open>Adding patterns\<close>

text \<open>
  The key \<^verbatim>\<open>add\<close> computes for a word of the main pattern, and for a word of the
  that and topic patterns.
\<close>

definition pattern_key :: "string \<Rightarrow> string" where
  "pattern_key word =
     (if word = ''_'' then UNDERSCORE
      else if word = ''*'' then STAR
      else if word = ''^'' then CARET
      else if word = ''BOT_NAME'' then BOT_NAME
      else word)"

definition section_key :: "string \<Rightarrow> string" where
  "section_key word =
     (if word = ''_'' then UNDERSCORE
      else if word = ''*'' then STAR
      else word)"

text \<open>
  The keys \<^verbatim>\<open>add\<close> walks through, in order: the three loops of the source and the two
  section edges, each taken with the same step
  \<^verbatim>\<open>if key not in node: node[key] = {}; node = node[key]\<close>.
\<close>

definition add_keys :: "string \<times> string \<times> string \<Rightarrow> string list" where
  "add_keys data = (case data of (pattern, that, topic) \<Rightarrow>
     map pattern_key (split pattern)
     @ (if length that > 0 then THAT # map section_key (split that) else [])
     @ (if length topic > 0 then TOPIC # map section_key (split topic) else []))"

text \<open>
  The descent of \<^verbatim>\<open>add\<close> from a node along the keys, ending with the template stored
  under \<open>TEMPLATE\<close>. The source mutates the dicts in place; here the updated node is
  returned, with the truth value of \<^verbatim>\<open>self._TEMPLATE not in node\<close> at the last node.
\<close>

fun add_path :: "string list \<Rightarrow> 'a \<Rightarrow> 'a node \<Rightarrow> error + ('a node \<times> bool)" where
  "add_path ks t (Tmpl x) = Inl TypeError"
| "add_path [] t (Dict kvs) =
     Inr (Dict (AList.update TEMPLATE (Tmpl t) kvs), map_of kvs TEMPLATE = None)"
| "add_path (k # ks) t (Dict kvs) =
     (case add_path ks t (case map_of kvs k of None \<Rightarrow> Dict [] | Some c \<Rightarrow> c) of
        Inl e \<Rightarrow> Inl e
      | Inr (c', new) \<Rightarrow> Inr (Dict (AList.update k c' kvs), new))"

definition add :: "string \<times> string \<times> string \<Rightarrow> 'a \<Rightarrow> 'a store \<Rightarrow> error + 'a store" where
  "add data template s =
     (case add_path (add_keys data) template (root s) of
        Inl e \<Rightarrow> Inl e
      | Inr (r, new) \<Rightarrow>
          Inr (s\<lparr> root := r,
                  templateCount := (if new then templateCount s + 1 else templateCount s) \<rparr>))"

section \<open>The matcher\<close>

text \<open>The lists \<^verbatim>\<open>xs[j:]\<close> for \<^verbatim>\<open>j in range(len(xs)+1)\<close>, in that order.\<close>

fun tails :: "'b list \<Rightarrow> 'b list list" where
  "tails [] = [[]]"
| "tails (x # xs) = (x # xs) # tails xs"

text \<open>
  What the caller does with the pair a recursive call returns:
  \<^verbatim>\<open>if template is not None: newPattern = [K] + pattern; return (newPattern, template)\<close>.
  \<open>found_of\<close> is the test, \<open>prepend\<close> builds the returned pair; adding a list to
  \<^verbatim>\<open>None\<close> raises.
\<close>

fun found_of :: "error + ('p option \<times> 't option) \<Rightarrow> error + ('p \<times> 't) option" where
  "found_of (Inl e) = Inl e"
| "found_of (Inr (pattern, None)) = Inr None"
| "found_of (Inr (None, Some t)) = Inl TypeError"
| "found_of (Inr (Some p, Some t)) = Inr (Some (p, t))"

fun prepend :: "string \<Rightarrow> error + (string list \<times> 't) option \<Rightarrow> error + (string list \<times> 't) option" where
  "prepend k (Inl e) = Inl e"
| "prepend k (Inr None) = Inr None"
| "prepend k (Inr (Some (p, t))) = Inr (Some (k # p, t))"

text \<open>Sequencing of the attempts: an exception or a success ends the search.\<close>

fun orelse :: "error + 'b option \<Rightarrow> error + 'b option \<Rightarrow> error + 'b option" where
  "orelse (Inl e) r = Inl e"
| "orelse (Inr (Some x)) r = Inr (Some x)"
| "orelse (Inr None) r = r"

fun first_found :: "(error + 'b option) list \<Rightarrow> error + 'b option" where
  "first_found [] = Inr None"
| "first_found (r # rs) = orelse r (first_found rs)"

fun result_of :: "error + ('p \<times> 't) option \<Rightarrow> error + ('p option \<times> 't option)" where
  "result_of (Inl e) = Inl e"
| "result_of (Inr None) = Inr (None, None)"
| "result_of (Inr (Some (p, t))) = Inr (Some p, Some t)"

text \<open>
  \<^verbatim>\<open>pattern = []; try: template = root[self._TEMPLATE] except KeyError: template = None\<close>
\<close>

definition at_template :: "(string \<times> 'a node) list \<Rightarrow> string list option \<times> 'a node option" where
  "at_template kvs = (Some [], map_of kvs TEMPLATE)"

lemma size_child: "map_of kvs k = Some c \<Longrightarrow> size c < size (Dict kvs)"
proof -
  assume "map_of kvs k = Some c"
  then have "(k, c) \<in> set kvs" by (rule map_of_SomeD)
  then have "size c < Suc (size_list (size_prod (\<lambda>x. 0) size) kvs)"
    by (induction kvs) auto
  then show ?thesis by simp
qed

text \<open>
  \<^verbatim>\<open>_match(words, thatWords, topicWords, root)\<close>, with the bot name as a parameter.
  The result is the pair \<^verbatim>\<open>(pattern, template)\<close>, each component possibly \<^verbatim>\<open>None\<close>.
\<close>

function p_match :: "string \<Rightarrow> string list \<Rightarrow> string list \<Rightarrow> string list \<Rightarrow> 'a node
    \<Rightarrow> error + (string list option \<times> 'a node option)" where
  "p_match bn words thatWords topicWords (Tmpl x) = Inl TypeError"
| "p_match bn [] thatWords topicWords (Dict kvs) =
     (case map_of kvs CARET of
        Some c \<Rightarrow>
          (case found_of (p_match bn [] thatWords topicWords c) of
             Inl e \<Rightarrow> Inl e
           | Inr (Some (p, t)) \<Rightarrow> Inr (Some (CARET # p), Some t)
           | Inr None \<Rightarrow> Inr (at_template kvs))
      | None \<Rightarrow>
          if length thatWords > 0 then
            (case map_of kvs THAT of
               None \<Rightarrow> Inr (at_template kvs)
             | Some c \<Rightarrow>
                 (case p_match bn thatWords [] topicWords c of
                    Inl e \<Rightarrow> Inl e
                  | Inr (pattern, None) \<Rightarrow> Inr (at_template kvs)
                  | Inr (pattern, Some t) \<Rightarrow> Inr (map_option ((#) THAT) pattern, Some t)))
          else if length topicWords > 0 then
            (case map_of kvs TOPIC of
               None \<Rightarrow> Inr (at_template kvs)
             | Some c \<Rightarrow>
                 (case p_match bn topicWords [] [] c of
                    Inl e \<Rightarrow> Inl e
                  | Inr (pattern, None) \<Rightarrow> Inr (at_template kvs)
                  | Inr (pattern, Some t) \<Rightarrow> Inr (map_option ((#) TOPIC) pattern, Some t)))
          else Inr (at_template kvs))"
| "p_match bn (first # suffix) thatWords topicWords (Dict kvs) =
     result_of
      (orelse
        (case map_of kvs UNDERSCORE of
           None \<Rightarrow> Inr None
         | Some c \<Rightarrow> prepend UNDERSCORE (first_found
             (map (\<lambda>suf. found_of (p_match bn suf thatWords topicWords c)) (tails suffix))))
      (orelse
        (case map_of kvs first of
           None \<Rightarrow> Inr None
         | Some c \<Rightarrow> prepend first (found_of (p_match bn suffix thatWords topicWords c)))
      (orelse
        (case map_of kvs BOT_NAME of
           None \<Rightarrow> Inr None
         | Some c \<Rightarrow>
             if first = bn
             then prepend first (found_of (p_match bn suffix thatWords topicWords c))
             else Inr None)
      (orelse
        (case map_of kvs CARET of
           None \<Rightarrow> Inr None
         | Some c \<Rightarrow> prepend CARET (first_found
             (map (\<lambda>suf. found_of (p_match bn suf thatWords topicWords c)) (tails (first # suffix)))))
        (case map_of kvs STAR of
           None \<Rightarrow> Inr None
         | Some c \<Rightarrow> prepend STAR (first_found
             (map (\<lambda>suf. found_of (p_match bn suf thatWords topicWords c)) (tails suffix))))))))"
  by pat_completeness auto
termination
  by (relation "measure (\<lambda>(bn, words, thatWords, topicWords, r). size r)")
     (auto dest: size_child)

text \<open>\<^verbatim>\<open>match(pattern, that, topic)\<close>: \<open>None\<close> is Python's \<^verbatim>\<open>None\<close>.\<close>

definition match :: "string \<Rightarrow> string \<Rightarrow> string \<Rightarrow> 'a store
    \<Rightarrow> error + (string list \<times> 'a node) option" where
  "match pattern that topic s =
     (if length pattern = 0 then Inr None
      else
        let input = puncStrip (upper pattern);
            that1 = (if strip_is_empty that then ''ULTRABOGUSDUMMYTHAT'' else that);
            thatInput = whitespaceSub (puncStrip (upper that1));
            topic1 = (if strip_is_empty topic then ''ULTRABOGUSDUMMYTOPIC'' else topic);
            topicInput = puncStrip (upper topic1)
        in case p_match (botName s) (split input) (split thatInput) (split topicInput) (root s) of
             Inl e \<Rightarrow> Inl e
           | Inr (patMatch, template) \<Rightarrow>
               (case (patMatch, template) of
                  (Some p, Some t) \<Rightarrow> Inr (Some (p, t))
                | _ \<Rightarrow> Inr None))"

section \<open>The wildcard locator\<close>

text \<open>\<^verbatim>\<open>xs.index(x)\<close>: the first position of \<open>x\<close>, or \<^verbatim>\<open>ValueError\<close>.\<close>

fun index_of :: "string list \<Rightarrow> string \<Rightarrow> error + nat" where
  "index_of [] x = Inl ValueError_not_in_list"
| "index_of (y # ys) x =
     (if y = x then Inr 0
      else case index_of ys x of Inl e \<Rightarrow> Inl e | Inr n \<Rightarrow> Inr (Suc n))"

text \<open>\<^verbatim>\<open>xs[a:b]\<close> for non-negative \<open>a\<close> and \<open>b\<close>.\<close>

definition slice :: "'b list \<Rightarrow> nat \<Rightarrow> nat \<Rightarrow> 'b list" where
  "slice xs a b = drop a (take b xs)"

text \<open>\<^verbatim>\<open>sub in s\<close> on strings: \<open>sub\<close> occurs in \<open>s\<close> as a contiguous substring.\<close>

fun starts_with :: "string \<Rightarrow> string \<Rightarrow> bool" where
  "starts_with s [] = True"
| "starts_with [] (c # sub) = False"
| "starts_with (d # s) (c # sub) = (d = c \<and> starts_with s sub)"

definition contains :: "string \<Rightarrow> string \<Rightarrow> bool" where
  "contains sub s = list_ex (\<lambda>t. starts_with t sub) (tails s)"

text \<open>
  The part of the matched pattern and the word list that \<^verbatim>\<open>wildcard\<close> selects for
  \<open>wildcardType\<close>.
\<close>

definition select_slice :: "string \<Rightarrow> string list \<Rightarrow> string list \<Rightarrow> string list \<Rightarrow> string list
    \<Rightarrow> error + (string list \<times> string list)" where
  "select_slice wildcardType patMatch inputWords thatWords topicWords =
     (if wildcardType = ''caret'' \<or> wildcardType = ''star'' then
        (case index_of patMatch THAT of
           Inl e \<Rightarrow> Inl e
         | Inr a \<Rightarrow> Inr (slice patMatch 0 a, inputWords))
      else if wildcardType = ''thatstar'' then
        (case index_of patMatch THAT of
           Inl e \<Rightarrow> Inl e
         | Inr a \<Rightarrow>
             (case index_of patMatch TOPIC of
                Inl e \<Rightarrow> Inl e
              | Inr b \<Rightarrow> Inr (slice patMatch (a + 1) b, thatWords)))
      else if wildcardType = ''topicstar'' then
        (case index_of patMatch TOPIC of
           Inl e \<Rightarrow> Inl e
         | Inr b \<Rightarrow> Inr (drop (b + 1) patMatch, topicWords))
      else Inl ValueError_wildcardType)"

text \<open>
  The inner loop \<^verbatim>\<open>for k in range(i, len(words))\<close> of both wildcard branches, from
  \<open>k = kk\<close> on. It returns \<^verbatim>\<open>end\<close>, the last value of \<^verbatim>\<open>k\<close>, and whether it left
  through the branch \<^verbatim>\<open>patMatch[j+1] == words[k]\<close>. The arguments \<open>endw\<close> and \<open>k\<close> are
  the values of \<^verbatim>\<open>end\<close> and \<^verbatim>\<open>k\<close> before the iteration.
\<close>

function inner_scan :: "string list \<Rightarrow> string list \<Rightarrow> nat \<Rightarrow> nat \<Rightarrow> int \<Rightarrow> nat
    \<Rightarrow> error + (int \<times> nat \<times> bool)" where
  "inner_scan patMatch words j kk endw k =
     (if kk \<ge> length words then Inr (endw, k, False)
      else if j + 1 = length patMatch then Inr (int (length words), kk, False)
      else if j + 1 > length patMatch then Inl IndexError
      else if patMatch ! (j + 1) = words ! kk then Inr (int kk - 1, kk, True)
      else inner_scan patMatch words j (kk + 1) endw kk)"
  by pat_completeness auto
termination
  by (relation "measure (\<lambda>(patMatch, words, j, kk, endw, k). length words - kk)") auto

text \<open>
  The loop \<^verbatim>\<open>for i in range(len(words))\<close> of \<^verbatim>\<open>wildcard\<close>, from iteration \<open>i\<close> on,
  with the local variables as arguments. It returns
  \<^verbatim>\<open>(foundTheRightWildcard, start, end)\<close> as they are after the loop.
\<close>

function wildcard_loop :: "string \<Rightarrow> int \<Rightarrow> string list \<Rightarrow> string list \<Rightarrow> nat
    \<Rightarrow> bool \<Rightarrow> nat \<Rightarrow> int \<Rightarrow> nat \<Rightarrow> nat \<Rightarrow> nat \<Rightarrow> nat \<Rightarrow> error + (bool \<times> nat \<times> int)" where
  "wildcard_loop wildcardType index patMatch words i
       foundTheRightWildcard start endw j numStars numCarets k =
     (if i \<ge> length words then Inr (foundTheRightWildcard, start, endw)
      else if i < k then
        wildcard_loop wildcardType index patMatch words (i + 1)
          foundTheRightWildcard start endw j numStars numCarets k
      else if j = length patMatch then Inr (foundTheRightWildcard, start, endw)
      else if \<not> foundTheRightWildcard then
        (if j > length patMatch then Inl IndexError
         else if patMatch ! j \<in> set [STAR, UNDERSCORE] then
           (let numStars1 = numStars + 1;
                found1 = (if int numStars1 = index then contains ''star'' wildcardType
                          else foundTheRightWildcard)
            in case inner_scan patMatch words j i endw k of
                 Inl e \<Rightarrow> Inl e
               | Inr (end1, k1, resumed) \<Rightarrow>
                   if found1 then Inr (found1, i, end1)
                   else wildcard_loop wildcardType index patMatch words (i + 1)
                          found1 i end1 (j + 1) numStars1 numCarets k1)
         else if patMatch ! j \<in> set [CARET] then
           (let numCarets1 = numCarets + 1;
                found1 = (if int numCarets1 = index then contains ''caret'' wildcardType
                          else foundTheRightWildcard)
            in case inner_scan patMatch words j i endw k of
                 Inl e \<Rightarrow> Inl e
               | Inr (end1, k1, resumed) \<Rightarrow>
                   (let j1 = (if resumed \<and> i = k1 then j + 1 else j)
                    in if found1 then Inr (found1, i, end1)
                       else wildcard_loop wildcardType index patMatch words (i + 1)
                              found1 i end1 (j1 + 1) numStars numCarets1 k1))
         else wildcard_loop wildcardType index patMatch words (i + 1)
                foundTheRightWildcard start endw (j + 1) numStars numCarets k)
      else wildcard_loop wildcardType index patMatch words (i + 1)
             foundTheRightWildcard start endw (j + 1) numStars numCarets k)"
  by pat_completeness auto
termination
  by (relation "measure (\<lambda>(wildcardType, index, patMatch, words, i, rest). length words - i)")
     auto

text \<open>
  \<^verbatim>\<open>if that.strip() == u"": that = u"ULTRABOGUSDUMMYTHAT"\<close>, and the same for the topic.
\<close>

definition that_or_dummy :: "string \<Rightarrow> string" where
  "that_or_dummy that = (if strip_is_empty that then ''ULTRABOGUSDUMMYTHAT'' else that)"

definition topic_or_dummy :: "string \<Rightarrow> string" where
  "topic_or_dummy topic = (if strip_is_empty topic then ''ULTRABOGUSDUMMYTOPIC'' else topic)"

text \<open>
  The three word lists \<^verbatim>\<open>input_.split()\<close>, \<^verbatim>\<open>thatInput.split()\<close> and
  \<^verbatim>\<open>topicInput.split()\<close> that \<^verbatim>\<open>wildcard\<close> computes at its top.
\<close>

definition wildcard_words :: "string \<Rightarrow> string \<Rightarrow> string \<Rightarrow> string list \<times> string list \<times> string list" where
  "wildcard_words pattern that topic =
     (split (whitespaceSub (puncStrip (upper pattern))),
      split (whitespaceSub (puncStrip (upper (that_or_dummy that)))),
      split (whitespaceSub (puncStrip (upper (topic_or_dummy topic)))))"

text \<open>The call of the recursive pattern-matcher in \<^verbatim>\<open>wildcard\<close>.\<close>

definition wildcard_match :: "string \<Rightarrow> string \<Rightarrow> string \<Rightarrow> 'a store
    \<Rightarrow> error + (string list option \<times> 'a node option)" where
  "wildcard_match pattern that topic s =
     (case wildcard_words pattern that topic of (inputWords, thatWords, topicWords) \<Rightarrow>
        p_match (botName s) inputWords thatWords topicWords (root s))"

text \<open>
  \<^verbatim>\<open>wildcard(wildcardType, pattern, that, topic, index)\<close>. The text the words are taken
  from at the end is \<^verbatim>\<open>pattern\<close>, or \<^verbatim>\<open>that\<close> or \<^verbatim>\<open>topic\<close> as rebound at the top of
  the method.
\<close>

definition wildcard :: "string \<Rightarrow> string \<Rightarrow> string \<Rightarrow> string \<Rightarrow> int \<Rightarrow> 'a store
    \<Rightarrow> error + string" where
  "wildcard wildcardType pattern that topic index s =
     (case wildcard_words pattern that topic of (inputWords, thatWords, topicWords) \<Rightarrow>
      case wildcard_match pattern that topic s of
        Inl e \<Rightarrow> Inl e
      | Inr (patMatch, None) \<Rightarrow> Inr []
      | Inr (None, Some t) \<Rightarrow> Inl AttributeError
      | Inr (Some pm, Some t) \<Rightarrow>
          (case select_slice wildcardType pm inputWords thatWords topicWords of
             Inl e \<Rightarrow> Inl e
           | Inr (pm1, words) \<Rightarrow>
               (case wildcard_loop wildcardType index pm1 words 0 False 0 0 0 0 0 0 of
                  Inl e \<Rightarrow> Inl e
                | Inr (found, start, endw) \<Rightarrow>
                    if found then
                      Inr (join (slice
                        (split (if wildcardType = ''caret'' \<or> wildcardType = ''star'' then pattern
                                else if wildcardType = ''thatstar'' then that_or_dummy that
                                else topic_or_dummy topic))
                        start (nat (endw + 1))))
                    else Inr [])))"

section \<open>Method calls on a PatternMgr object\<close>

text \<open>
  A call of one of the public methods takes the object's state and gives what the call
  returns or raises, with the state after the call. \<^verbatim>\<open>match\<close>, \<^verbatim>\<open>wildcard\<close> and
  \<^verbatim>\<open>numTemplates\<close> assign to no attribute and to no dict. \<^verbatim>\<open>add\<close> raises only while it
  walks through entries that exist already (a dict it has created is empty, and so are
  all dicts below it), so that a call of \<^verbatim>\<open>add\<close> that raises has changed nothing.
\<close>

datatype 'a request =
    Add "string \<times> string \<times> string" 'a
  | SetBotName string
  | Match string string string
  | Wildcard string string string string int
  | NumTemplates

datatype 'a reply =
    Raised error
  | Returned_None
  | Returned_MatchResult "string list" "'a node"
  | Returned_str string
  | Returned_int nat

fun call :: "'a request \<Rightarrow> 'a store \<Rightarrow> 'a reply \<times> 'a store" where
  "call (Add data template) s =
     (case add data template s of Inl e \<Rightarrow> (Raised e, s) | Inr s' \<Rightarrow> (Returned_None, s'))"
| "call (SetBotName name) s = (Returned_None, setBotName name s)"
| "call (Match pattern that topic) s =
     (case match pattern that topic s of
        Inl e \<Rightarrow> (Raised e, s)
      | Inr None \<Rightarrow> (Returned_None, s)
      | Inr (Some (p, t)) \<Rightarrow> (Returned_MatchResult p t, s))"
| "call (Wildcard wildcardType pattern that topic index) s =
     (case wildcard wildcardType pattern that topic index s of
        Inl e \<Rightarrow> (Raised e, s)
      | Inr str \<Rightarrow> (Returned_str str, s))"
| "call NumTemplates s = (Returned_int (numTemplates s), s)"

text \<open>A sequence of calls on one object: the replies in order, and the final state.\<close>

fun run :: "'a request list \<Rightarrow> 'a store \<Rightarrow> 'a reply list \<times> 'a store" where
  "run [] s = ([], s)"
| "run (c # cs) s =
     (case call c s of (r, s') \<Rightarrow> (case run cs s' of (rs, s'') \<Rightarrow> (r # rs, s'')))"

section \<open>Words and sentinel keys\<close>


text \<open>
  The words that the matcher looks up: a word of \<^verbatim>\<open>input_.split()\<close> is not empty, and
  none of its characters is whitespace, is in the punctuation class, or is changed by
  \<^verbatim>\<open>upper\<close> (lemma \<open>normalizer_yields_normalized_words\<close> below).
\<close>

definition normalized_word :: "string \<Rightarrow> bool" where
  "normalized_word w =
     (w \<noteq> [] \<and> list_all (\<lambda>c. \<not> is_space c \<and> \<not> is_punct c \<and> upper_char c = c) w)"

section \<open>Following a path through the node tree\<close>



section \<open>Properties\<close>

subsection \<open>Scenario: a star pattern stored without that and topic\<close>

text \<open>
  Claim C2. With the pattern \<^verbatim>\<open>I LIKE *\<close> stored under empty that and topic, the matcher
  finds the template on \<^verbatim>\<open>I like cats\<close> with the path \<^verbatim>\<open>[I, LIKE, STAR]\<close>, which holds
  no \<open>THAT\<close> key. The claim has \<^verbatim>\<open>wildcard('star', "I like cats", "", "", 1)\<close> return
  \<^verbatim>\<open>cats\<close>, with the whole path as the main slice. In the code
  \<^verbatim>\<open>patMatch.index(self._THAT)\<close> raises \<^verbatim>\<open>ValueError\<close> on that path, so the call
  raises instead of returning.
\<close>

theorem wildcard_star_without_that_raises:
  "fst (run [Add (''I LIKE *'', '''', '''') (2::nat),
             Match ''I like cats'' '''' '''',
             Wildcard ''star'' ''I like cats'' '''' '''' 1] init)
   = [Returned_None,
      Returned_MatchResult [''I'', ''LIKE'', STAR] (Tmpl 2),
      Raised ValueError_not_in_list]"
  by code_simp

subsection \<open>Scenario: the bot name\<close>

text \<open>
  Claim C3. After \<^verbatim>\<open>setBotName("Alice")\<close> and the pattern \<^verbatim>\<open>BOT_NAME ROCKS\<close> stored
  under empty that and topic, the claim has \<^verbatim>\<open>match("alice rocks", "", "")\<close> return
  the template. The code compares the upper-cased input word \<^verbatim>\<open>ALICE\<close> with the
  stored name \<^verbatim>\<open>Alice\<close>, so both \<^verbatim>\<open>alice rocks\<close> and \<^verbatim>\<open>bob rocks\<close> return
  \<^verbatim>\<open>None\<close>.
\<close>

theorem bot_name_mixed_case_never_matches:
  "fst (run [SetBotName ''Alice'',
             Add (''BOT_NAME ROCKS'', '''', '''') (7::nat),
             Match ''alice rocks'' '''' '''',
             Match ''bob rocks'' '''' ''''] init)
   = [Returned_None, Returned_None, Returned_None, Returned_None]"
  by code_simp

subsection \<open>An unknown wildcard type\<close>

text \<open>
  Claim C7 has every call of \<^verbatim>\<open>wildcard\<close> with a type outside \<^verbatim>\<open>caret\<close>,
  \<^verbatim>\<open>star\<close>, \<^verbatim>\<open>thatstar\<close>, \<^verbatim>\<open>topicstar\<close> raise. The code runs the matcher first and
  returns the empty string when it finds no template, before it looks at the type: on the
  empty store the unknown type \<^verbatim>\<open>foo\<close> returns the empty string.
\<close>

theorem wildcard_unknown_type_no_match_returns_empty:
  "call (Wildcard ''foo'' ''hi'' '''' '''' 1) (init :: nat store) = (Returned_str '''', init)"
  by code_simp

text \<open>
  Claim C7, amended. For every store and every input, a call of \<^verbatim>\<open>wildcard\<close> with a type
  outside the four leaves the store unchanged, and what it returns is decided by the
  matcher alone: it raises \<^verbatim>\<open>ValueError\<close> when the matcher finds a template, returns
  the empty string when the matcher finds none, and passes on what the matcher raises.
\<close>

theorem wildcard_unknown_type:
  assumes "wildcardType \<notin> set [''caret'', ''star'', ''thatstar'', ''topicstar'']"
  shows "call (Wildcard wildcardType pattern that topic index) s =
     (case wildcard_match pattern that topic s of
        Inl e \<Rightarrow> (Raised e, s)
      | Inr (patMatch, None) \<Rightarrow> (Returned_str '''', s)
      | Inr (None, Some t) \<Rightarrow> (Raised AttributeError, s)
      | Inr (Some pm, Some t) \<Rightarrow> (Raised ValueError_wildcardType, s))"
  using assms
  by (simp add: wildcard_def select_slice_def split: sum.splits option.splits prod.splits)

text \<open>
  Claim C7, witness: on the store holding \<^verbatim>\<open>I LIKE *\<close> (that \<^verbatim>\<open>*\<close>, topic \<^verbatim>\<open>*\<close>) the
  matcher finds the template for \<^verbatim>\<open>I like cats\<close>, and the type \<^verbatim>\<open>foo\<close> raises.
\<close>

theorem wildcard_unknown_type_witness:
  "''foo'' \<notin> set [''caret'', ''star'', ''thatstar'', ''topicstar''] \<and>
   call (Wildcard ''foo'' ''I like cats'' '''' '''' 1)
        (snd (run [Add (''I LIKE *'', ''*'', ''*'') (2::nat)] init))
   = (Raised ValueError_wildcardType, snd (run [Add (''I LIKE *'', ''*'', ''*'') (2::nat)] init))"
proof -
  have h: "''foo'' \<notin> set [''caret'', ''star'', ''thatstar'', ''topicstar'']"
    by simp
  have m: "wildcard_match ''I like cats'' '''' ''''
             (snd (run [Add (''I LIKE *'', ''*'', ''*'') (2::nat)] init))
           = Inr (Some [''I'', ''LIKE'', STAR, THAT, STAR, TOPIC, STAR], Some (Tmpl 2))"
    by code_simp
  show ?thesis
    using h wildcard_unknown_type [OF h, of "''I like cats''" "''''" "''''" 1
      "snd (run [Add (''I LIKE *'', ''*'', ''*'') (2::nat)] init)"]
    by (simp only: m) simp
qed

subsection \<open>Words and sentinel keys\<close>

lemma split_from_words:
  "w \<in> set (split_from cur s) \<Longrightarrow> w \<noteq> [] \<and> set w \<subseteq> set cur \<union> {c \<in> set s. \<not> is_space c}"
proof (induction cur s rule: split_from.induct)
  case (1 cur)
  then show ?case by (auto split: if_splits)
next
  case (2 cur c cs)
  then show ?case by (auto split: if_splits)
qed

lemma upper_char_idem: "upper_char (upper_char c) = upper_char c"
proof (cases "97 \<le> (of_char c :: nat) \<and> (of_char c :: nat) \<le> 122")
  case True
  then have m: "((of_char c :: nat) - 32) mod 256 = of_char c - 32"
    by (intro mod_less) arith
  from True have u: "upper_char c = char_of ((of_char c :: nat) - 32)"
    by (auto simp: upper_char_def Let_def)
  from True have n: "\<not> (97 \<le> (of_char c :: nat) - 32 \<and> (of_char c :: nat) - 32 \<le> 122)"
    by arith
  have "upper_char (char_of ((of_char c :: nat) - 32)) = char_of ((of_char c :: nat) - 32)"
    unfolding upper_char_def Let_def of_char_of m using n by auto
  with u show ?thesis by simp
next
  case False
  then have "upper_char c = c" by (auto simp: upper_char_def Let_def)
  then show ?thesis by simp
qed

lemma normalizer_yields_normalized_words:
  assumes "w \<in> set (split (puncStrip (upper s)))"
  shows "normalized_word w"
proof -
  from assms have ne: "w \<noteq> []"
    and sub: "set w \<subseteq> {c \<in> set (puncStrip (upper s)). \<not> is_space c}"
    using split_from_words [of w "[]" "puncStrip (upper s)"] by (auto simp: split_def)
  have "\<not> is_space c \<and> \<not> is_punct c \<and> upper_char c = c" if "c \<in> set w" for c
  proof -
    from that sub have c: "c \<in> set (puncStrip (upper s))" and ns: "\<not> is_space c" by auto
    from c obtain d where d: "d \<in> set s"
      and cd: "c = (if is_punct (upper_char d) then CHR '' '' else upper_char d)"
      by (auto simp: puncStrip_def upper_def)
    have sp: "is_space (CHR '' '')" by (simp add: is_space_def)
    from cd ns sp have "\<not> is_punct (upper_char d)" and "c = upper_char d"
      by (auto split: if_splits)
    then show ?thesis using ns by (simp add: upper_char_idem)
  qed
  then show ?thesis using ne by (simp add: normalized_word_def list_all_iff)
qed




subsection \<open>The priority of the underscore\<close>

text \<open>
  Claim C1 has \<^verbatim>\<open>match("A X", "", "")\<close> return the template of \<^verbatim>\<open>_ X\<close> in every
  store that holds \<^verbatim>\<open>_ X\<close>, \<^verbatim>\<open>A X\<close> and \<^verbatim>\<open>* X\<close>. In a store that holds \<^verbatim>\<open>_ _\<close> as
  well, the underscore is tried first again at the node below the first underscore, and
  the template of \<^verbatim>\<open>_ _\<close> is returned.
\<close>

theorem underscore_underscore_before_underscore_X:
  "fst (run [Add (''_ X'', '''', '''') (1::nat),
             Add (''A X'', '''', '''') 2,
             Add (''* X'', '''', '''') 3,
             Add (''_ _'', '''', '''') 4,
             Match ''A X'' '''' ''''] init)
   = [Returned_None, Returned_None, Returned_None, Returned_None,
      Returned_MatchResult [UNDERSCORE, UNDERSCORE] (Tmpl 4)]"
  by code_simp

lemma words_A_X: "split (puncStrip (upper ''A X'')) = [''A'', ''X'']"
  by code_simp

lemma dummy_that_words:
  "split (whitespaceSub (puncStrip (upper
     (if strip_is_empty [] then ''ULTRABOGUSDUMMYTHAT'' else []))))
   = [''ULTRABOGUSDUMMYTHAT'']"
  by code_simp

lemma dummy_topic_words:
  "split (puncStrip (upper (if strip_is_empty [] then ''ULTRABOGUSDUMMYTOPIC'' else [])))
   = [''ULTRABOGUSDUMMYTOPIC'']"
  by code_simp

text \<open>
  Claim C1, amended. For every store in which \<^verbatim>\<open>_ X\<close> is stored without that and topic
  (the node \<open>nx\<close> below \<open>UNDERSCORE\<close> and \<^verbatim>\<open>X\<close> holds the template \<open>t\<close>), in which the
  node below \<open>UNDERSCORE\<close> has no \<open>UNDERSCORE\<close> child and \<open>nx\<close> has no \<open>CARET\<close> and no
  \<open>THAT\<close> child, \<^verbatim>\<open>match("A X", "", "")\<close> returns \<open>t\<close> with the path
  \<^verbatim>\<open>[UNDERSCORE, X]\<close>, whatever else the store holds, \<^verbatim>\<open>A X\<close> and \<^verbatim>\<open>* X\<close> included:
  the underscore is tried before the literal word and the star.
\<close>

theorem underscore_X_outranks_literal_and_star:
  assumes "root s = Dict r"
    and "map_of r UNDERSCORE = Some (Dict n0)"
    and "map_of n0 UNDERSCORE = None"
    and "map_of n0 ''X'' = Some (Dict nx)"
    and "map_of nx CARET = None"
    and "map_of nx THAT = None"
    and "map_of nx TEMPLATE = Some t"
  shows "match ''A X'' '''' '''' s = Inr (Some ([UNDERSCORE, ''X''], t))"
proof -
  have e: "p_match (botName s) [] [''ULTRABOGUSDUMMYTHAT''] [''ULTRABOGUSDUMMYTOPIC''] (Dict nx)
           = Inr (Some [], Some t)"
    using assms(5-7) by (simp add: at_template_def)
  have x: "p_match (botName s) [''X''] [''ULTRABOGUSDUMMYTHAT''] [''ULTRABOGUSDUMMYTOPIC''] (Dict n0)
           = Inr (Some [''X''], Some t)"
    using assms(3,4) e by simp
  have "p_match (botName s) [''A'', ''X''] [''ULTRABOGUSDUMMYTHAT''] [''ULTRABOGUSDUMMYTOPIC''] (Dict r)
           = Inr (Some [UNDERSCORE, ''X''], Some t)"
    using assms(2) x by simp
  then show ?thesis
    using assms(1)
    by (simp add: match_def Let_def words_A_X dummy_that_words dummy_topic_words
             del: p_match.simps)
qed

text \<open>
  Claim C1, witness: the store that holds exactly \<^verbatim>\<open>_ X\<close>, \<^verbatim>\<open>A X\<close> and \<^verbatim>\<open>* X\<close>, with
  the templates 1, 2 and 3.
\<close>

theorem underscore_X_outranks_literal_and_star_witness:
  "root (snd (run [Add (''_ X'', '''', '''') (1::nat),
                   Add (''A X'', '''', '''') 2,
                   Add (''* X'', '''', '''') 3] init))
     = Dict [(UNDERSCORE, Dict [(''X'', Dict [(TEMPLATE, Tmpl 1)])]),
             (''A'', Dict [(''X'', Dict [(TEMPLATE, Tmpl 2)])]),
             (STAR, Dict [(''X'', Dict [(TEMPLATE, Tmpl 3)])])] \<and>
   match ''A X'' '''' ''''
     (snd (run [Add (''_ X'', '''', '''') (1::nat),
                Add (''A X'', '''', '''') 2,
                Add (''* X'', '''', '''') 3] init))
     = Inr (Some ([UNDERSCORE, ''X''], Tmpl 1))"
proof -
  have r: "root (snd (run [Add (''_ X'', '''', '''') (1::nat),
                   Add (''A X'', '''', '''') 2,
                   Add (''* X'', '''', '''') 3] init))
     = Dict [(UNDERSCORE, Dict [(''X'', Dict [(TEMPLATE, Tmpl 1)])]),
             (''A'', Dict [(''X'', Dict [(TEMPLATE, Tmpl 2)])]),
             (STAR, Dict [(''X'', Dict [(TEMPLATE, Tmpl 3)])])]"
    by code_simp
  show ?thesis
    using r underscore_X_outranks_literal_and_star [OF r, of "[(''X'', Dict [(TEMPLATE, Tmpl 1)])]"
        "[(TEMPLATE, Tmpl 1)]" "Tmpl 1"]
    by (simp add: key_defs)
qed

subsection \<open>The path returned by the matcher\<close>















end
